theory Spec2Isabelle
  imports Complex_Main
begin

section \<open>Data model\<close>

text \<open>
  One entry of \<^verbatim>\<open>info.formats\<close>, the variant descriptors the extraction library
  hands to \<^verbatim>\<open>server.js\<close>. The server reads \<^verbatim>\<open>hasVideo\<close>, \<^verbatim>\<open>hasAudio\<close>,
  \<^verbatim>\<open>container\<close>, \<^verbatim>\<open>mimeType\<close> and \<^verbatim>\<open>contentLength\<close>; \<^verbatim>\<open>itag\<close> and the
  ordering key \<^verbatim>\<open>qualityRank\<close> are read by the library's quality rule only.
  A field that may be absent (\<^verbatim>\<open>undefined\<close>) is an option.
\<close>

record format =
  hasVideo :: bool
  hasAudio :: bool
  container :: "string option"
  mimeType :: "string option"
  contentLength :: "nat option"
  qualityRank :: nat
  itag :: int

text \<open>
  The value \<^verbatim>\<open>parseQuality\<close> returns: the string \<^verbatim>\<open>'highest'\<close>, the string
  \<^verbatim>\<open>'lowest'\<close>, or a finite number naming an itag.
\<close>

datatype quality = Highest | Lowest | ExactID rat

text \<open>
  The object \<^verbatim>\<open>pickFormat\<close> returns. A key that is \<^verbatim>\<open>null\<close>, \<^verbatim>\<open>undefined\<close>
  or missing from the object literal is \<open>None\<close>: the request handler only tests these
  keys for truthiness.
\<close>

record selection =
  format :: "format option"
  audioFormat :: "format option"
  videoFormat :: "format option"
  isMuxed :: bool

section \<open>Quality parsing\<close>

definition isDigit :: "char \<Rightarrow> bool" where
  "isDigit c = (c \<in> set ''0123456789'')"

definition digitVal :: "char \<Rightarrow> nat" where
  "digitVal c = of_char c - 48"

text \<open>The decimal value of a string of digits, read left to right.\<close>

definition decimal :: "string \<Rightarrow> nat" where
  "decimal s = foldl (\<lambda>n c. 10 * n + digitVal c) 0 s"

text \<open>The number of binary digits of a natural number.\<close>

fun bitLength :: "nat \<Rightarrow> nat" where
  "bitLength n = (if n = 0 then 0 else Suc (bitLength (n div 2)))"

declare bitLength.simps [simp del]

text \<open>
  The JavaScript number (an IEEE double) for a natural number: the number itself below
  \<open>2^53\<close>; above, the nearest multiple of the spacing \<open>2^e\<close> that leaves 53
  significant bits, a tie going to the even multiple; \<open>None\<close>, for \<^verbatim>\<open>Infinity\<close>,
  when that is \<open>2^1024\<close> or more.
\<close>

definition toDouble :: "nat \<Rightarrow> nat option" where
  "toDouble n =
     (if n < 2 ^ 53 then Some n
      else
        (let e = bitLength n - 53;
             q = n div 2 ^ e;
             r = n mod 2 ^ e;
             half = 2 ^ (e - 1);
             m = (if half < r \<or> (r = half \<and> odd q) then q + 1 else q)
         in if m * 2 ^ e < 2 ^ 1024 then Some (m * 2 ^ e) else None))"

text \<open>
  \<^verbatim>\<open>Number(s)\<close> followed by \<^verbatim>\<open>Number.isFinite\<close>, for a non-empty string of
  decimal digits: the double nearest to the decimal value. \<open>None\<close> stands for a number
  that \<^verbatim>\<open>Number.isFinite\<close> rejects.
\<close>

definition digitsNumber :: "string \<Rightarrow> int option" where
  "digitsNumber s = map_option int (toDouble (decimal s))"

text \<open>
  \<^verbatim>\<open>size - 1\<close> followed by \<^verbatim>\<open>Number.isFinite\<close>, for a size that is not zero: the
  size as a number, less one, rounded to a double again.
\<close>

definition minusOne :: "nat \<Rightarrow> int option" where
  "minusOne sz =
     (case toDouble sz of
        None \<Rightarrow> None
      | Some d \<Rightarrow> map_option int (toDouble (d - 1)))"

text \<open>
  \<^verbatim>\<open>Number(value)\<close> followed by \<^verbatim>\<open>Number.isFinite\<close> on any string. Strings of
  decimal digits are read here; every other string (signs, fractions, exponents,
  hexadecimal literals, surrounding white space, \<^verbatim>\<open>'Infinity'\<close>, text) is left to
  the parameter \<open>ext\<close>, which stands for the JavaScript built-in on those strings.
\<close>

definition jsNumber :: "(string \<Rightarrow> rat option) \<Rightarrow> string \<Rightarrow> rat option" where
  "jsNumber ext v =
     (if v \<noteq> [] \<and> list_all isDigit v then map_option of_int (digitsNumber v) else ext v)"

text \<open>
  \<^verbatim>\<open>
  function parseQuality(value) {
    if (!value) return 'highest';
    if (value === 'highest' || value === 'lowest') return value;
    const itag = Number(value);
    if (Number.isFinite(itag)) return itag;
    return 'highest';
  }
  \<close>
\<close>

definition parseQuality :: "(string \<Rightarrow> rat option) \<Rightarrow> string \<Rightarrow> quality" where
  "parseQuality ext v =
     (if v = [] then Highest
      else if v = ''highest'' then Highest
      else if v = ''lowest'' then Lowest
      else (case jsNumber ext v of Some n \<Rightarrow> ExactID n | None \<Rightarrow> Highest))"

section \<open>The extraction library's selection helpers\<close>

text \<open>
  Modelled from the spec: \<^verbatim>\<open>ytdl.filterFormats(formats, 'audioonly')\<close>, a function of
  the extraction library that \<^verbatim>\<open>server.js\<close> calls and that is not part of the
  sources. The spec's audio step filters the variants to \<open>hasAudio \<and> \<not> hasVideo\<close>.
\<close>

definition filterFormats_audioonly :: "format list \<Rightarrow> format list" where
  "filterFormats_audioonly fs = filter (\<lambda>fmt. hasAudio fmt \<and> \<not> hasVideo fmt) fs"

text \<open>
  Modelled from the spec: the extremes of the quality rule inside
  \<^verbatim>\<open>ytdl.chooseFormat\<close>, which is not part of the sources. The candidates are
  ordered by \<open>qualityRank\<close>; \<open>firstMax\<close> is the first candidate of the greatest rank
  and \<open>firstMin\<close> the first of the least rank, ties going to the variant listed first.
\<close>

fun firstMax :: "format \<Rightarrow> format list \<Rightarrow> format" where
  "firstMax best [] = best"
| "firstMax best (f # fs) =
     (if qualityRank best < qualityRank f then firstMax f fs else firstMax best fs)"

fun firstMin :: "format \<Rightarrow> format list \<Rightarrow> format" where
  "firstMin best [] = best"
| "firstMin best (f # fs) =
     (if qualityRank f < qualityRank best then firstMin f fs else firstMin best fs)"

text \<open>
  Modelled from the spec: the cases \<open>Highest\<close> and \<open>Lowest\<close> of the quality rule
  inside \<^verbatim>\<open>ytdl.chooseFormat\<close>, which is not part of the sources. An empty
  candidate list yields nothing; otherwise the extreme of \<open>qualityRank\<close> is taken.
\<close>

definition chooseHighest :: "format list \<Rightarrow> format option" where
  "chooseHighest cs = (case cs of [] \<Rightarrow> None | f # fs \<Rightarrow> Some (firstMax f fs))"

definition chooseLowest :: "format list \<Rightarrow> format option" where
  "chooseLowest cs = (case cs of [] \<Rightarrow> None | f # fs \<Rightarrow> Some (firstMin f fs))"

text \<open>
  Modelled from the spec: \<^verbatim>\<open>ytdl.chooseFormat(candidates, { quality })\<close>, a function of
  the extraction library that \<^verbatim>\<open>server.js\<close> calls and that is not part of the
  sources. The spec's quality rule: an empty candidate list yields nothing;
  \<open>ExactID id\<close> is the variant whose identifier equals \<open>id\<close> (the first listed, should
  several carry it) and behaves as \<open>Highest\<close> when none matches; \<open>Highest\<close> and
  \<open>Lowest\<close> take the extreme of \<open>qualityRank\<close>, the first listed among equals.
\<close>

definition chooseFormat :: "format list \<Rightarrow> quality \<Rightarrow> format option" where
  "chooseFormat cs q =
     (case q of
        Highest \<Rightarrow> chooseHighest cs
      | Lowest \<Rightarrow> chooseLowest cs
      | ExactID n \<Rightarrow>
          (case find (\<lambda>fmt. of_int (itag fmt) = n) cs of
             Some fmt \<Rightarrow> Some fmt
           | None \<Rightarrow> chooseHighest cs))"

section \<open>Format selection\<close>

text \<open>
  \<^verbatim>\<open>
  function pickFormat(info, { type, quality, enableFfmpeg }) {
    const qualityPref = parseQuality(quality);
    if (type === 'audio') {
      const audioFormats = ytdl.filterFormats(info.formats, 'audioonly');
      const format = ytdl.chooseFormat(audioFormats, { quality: qualityPref });
      return { format, isMuxed: false };
    }
    const muxed = info.formats.filter((fmt) => fmt.hasVideo && fmt.hasAudio);
    if (muxed.length) {
      const format = ytdl.chooseFormat(muxed, { quality: qualityPref });
      return { format, isMuxed: true };
    }
    if (!enableFfmpeg) {
      return { format: null, isMuxed: false };
    }
    const videoOnly = info.formats.filter((fmt) => fmt.hasVideo && !fmt.hasAudio);
    const audioOnly = info.formats.filter((fmt) => fmt.hasAudio && !fmt.hasVideo);
    const videoFormat = ytdl.chooseFormat(videoOnly, { quality: qualityPref });
    const audioFormat = ytdl.chooseFormat(audioOnly, { quality: 'highest' });
    return { format: null, audioFormat, videoFormat, isMuxed: false };
  }
  \<close>
  The first argument of the model is \<^verbatim>\<open>info.formats\<close>.
\<close>

definition pickFormat ::
  "(string \<Rightarrow> rat option) \<Rightarrow> format list \<Rightarrow> string \<Rightarrow> string \<Rightarrow> bool \<Rightarrow> selection" where
  "pickFormat ext formats type quality enableFfmpeg =
     (let qualityPref = parseQuality ext quality in
      if type = ''audio'' then
        (let audioFormats = filterFormats_audioonly formats in
         \<lparr>format = chooseFormat audioFormats qualityPref, audioFormat = None,
          videoFormat = None, isMuxed = False\<rparr>)
      else
        (let muxed = filter (\<lambda>fmt. hasVideo fmt \<and> hasAudio fmt) formats in
         if muxed \<noteq> [] then
           \<lparr>format = chooseFormat muxed qualityPref, audioFormat = None,
            videoFormat = None, isMuxed = True\<rparr>
         else if \<not> enableFfmpeg then
           \<lparr>format = None, audioFormat = None, videoFormat = None, isMuxed = False\<rparr>
         else
           (let videoOnly = filter (\<lambda>fmt. hasVideo fmt \<and> \<not> hasAudio fmt) formats;
                audioOnly = filter (\<lambda>fmt. hasAudio fmt \<and> \<not> hasVideo fmt) formats
            in \<lparr>format = None,
                audioFormat = chooseFormat audioOnly Highest,
                videoFormat = chooseFormat videoOnly qualityPref,
                isMuxed = False\<rparr>)))"

section \<open>Range negotiation\<close>

text \<open>The window \<^verbatim>\<open>{ start, end }\<close> that \<^verbatim>\<open>parseRangeHeader\<close> returns.\<close>

record range_window =
  range_start :: int
  range_end :: int

text \<open>
  The literal \<^verbatim>\<open>bytes=\<close> of the pattern \<^verbatim>\<open>/bytes=(\d+)-(\d*)/i\<close> at the head of a
  string; the flag \<^verbatim>\<open>i\<close> lets each letter match in either case.
\<close>

definition bytesLiteral :: "string \<Rightarrow> bool" where
  "bytesLiteral s =
     (length s = 6 \<and>
      s ! 0 \<in> {CHR ''b'', CHR ''B''} \<and> s ! 1 \<in> {CHR ''y'', CHR ''Y''} \<and>
      s ! 2 \<in> {CHR ''t'', CHR ''T''} \<and> s ! 3 \<in> {CHR ''e'', CHR ''E''} \<and>
      s ! 4 \<in> {CHR ''s'', CHR ''S''} \<and> s ! 5 = CHR ''='')"

text \<open>
  The pattern matched at the head of a string: the literal, the longest run of digits
  (at least one: a shorter run would be followed by a digit, never by the dash), the
  dash, and the longest run of digits after it (possibly empty). The result is the pair
  of capture groups \<^verbatim>\<open>(match[1], match[2])\<close>.
\<close>

definition matchHere :: "string \<Rightarrow> (string \<times> string) option" where
  "matchHere s =
     (if bytesLiteral (take 6 s) then
        (let rest = drop 6 s;
             digits1 = takeWhile isDigit rest in
         (case dropWhile isDigit rest of
            [] \<Rightarrow> None
          | c # after \<Rightarrow>
              if digits1 \<noteq> [] \<and> c = CHR ''-'' then Some (digits1, takeWhile isDigit after)
              else None))
      else None)"

text \<open>
  \<^verbatim>\<open>/bytes=(\d+)-(\d*)/i.exec(rangeHeader)\<close>: the pattern is not anchored, so the
  leftmost position where it matches wins; \<open>None\<close> is \<^verbatim>\<open>null\<close>.
\<close>

fun regexExec :: "string \<Rightarrow> (string \<times> string) option" where
  "regexExec [] = None"
| "regexExec (c # cs) =
     (case matchHere (c # cs) of Some m \<Rightarrow> Some m | None \<Rightarrow> regexExec cs)"

text \<open>
  \<^verbatim>\<open>
  function parseRangeHeader(rangeHeader, size) {
    if (!rangeHeader || !size) return null;
    const match = /bytes=(\d+)-(\d*)/i.exec(rangeHeader);
    if (!match) return null;
    const start = Number(match[1]);
    const end = match[2] ? Number(match[2]) : size - 1;
    if (!Number.isFinite(start) || !Number.isFinite(end) || start > end) return null;
    return { start, end };
  }
  \<close>
  An absent header is \<open>None\<close> and the empty header is falsy as well; the size is
  \<^verbatim>\<open>format.contentLength\<close> read as a number, falsy when absent or zero.
\<close>

definition parseRangeHeader :: "string option \<Rightarrow> nat option \<Rightarrow> range_window option" where
  "parseRangeHeader rangeHeader size' =
     (case rangeHeader of
        None \<Rightarrow> None
      | Some h \<Rightarrow>
          if h = [] then None
          else
            (case size' of
               None \<Rightarrow> None
             | Some sz \<Rightarrow>
                 if sz = 0 then None
                 else
                   (case regexExec h of
                      None \<Rightarrow> None
                    | Some (m1, m2) \<Rightarrow>
                        (let start = digitsNumber m1;
                             end1 = (if m2 \<noteq> [] then digitsNumber m2 else minusOne sz)
                         in (case (start, end1) of
                               (Some st, Some en) \<Rightarrow>
                                 if st > en then None
                                 else Some \<lparr>range_start = st, range_end = en\<rparr>
                             | _ \<Rightarrow> None)))))"

section \<open>Mapping extraction failures to a status\<close>

text \<open>\<^verbatim>\<open>message.includes(needle)\<close>: the needle occurs somewhere in the message.\<close>

fun includes_str :: "string \<Rightarrow> string \<Rightarrow> bool" where
  "includes_str [] needle = (needle = [])"
| "includes_str (c # cs) needle =
     (take (length needle) (c # cs) = needle \<or> includes_str cs needle)"

record mapped =
  status :: nat
  message :: string

text \<open>
  \<^verbatim>\<open>
  function mapYtdlError(err) {
    const message = String(err && err.message ? err.message : err);
    if (message.includes('private')) return { status: 403, message: 'Video is private.' };
    if (message.includes('age-restricted')) return { status: 403, message: 'Video is age restricted.' };
    if (message.includes('410')) return { status: 410, message: 'Video is no longer available.' };
    if (message.includes('403')) return { status: 403, message: 'Access forbidden (possible throttling).' };
    if (message.includes('Live')) return { status: 400, message: 'Livestreams are not supported.' };
    return { status: 500, message: 'Failed to fetch media.' };
  }
  \<close>
  The argument of the model is the string \<^verbatim>\<open>message\<close>.
\<close>

definition mapYtdlError :: "string \<Rightarrow> mapped" where
  "mapYtdlError msg =
     (if includes_str msg ''private'' then \<lparr>status = 403, message = ''Video is private.''\<rparr>
      else if includes_str msg ''age-restricted'' then
        \<lparr>status = 403, message = ''Video is age restricted.''\<rparr>
      else if includes_str msg ''410'' then
        \<lparr>status = 410, message = ''Video is no longer available.''\<rparr>
      else if includes_str msg ''403'' then
        \<lparr>status = 403, message = ''Access forbidden (possible throttling).''\<rparr>
      else if includes_str msg ''Live'' then
        \<lparr>status = 400, message = ''Livestreams are not supported.''\<rparr>
      else \<lparr>status = 500, message = ''Failed to fetch media.''\<rparr>)"

text \<open>
  The failure reasons the spec names for the extraction collaborator, and the status it
  gives each of them.
\<close>

datatype reason = Private | AgeRestricted | Removed | Forbidden | Live | Unrecognized

fun reasonStatus :: "reason \<Rightarrow> nat" where
  "reasonStatus Private = 403"
| "reasonStatus AgeRestricted = 403"
| "reasonStatus Removed = 410"
| "reasonStatus Live = 400"
| "reasonStatus Forbidden = 403"
| "reasonStatus Unrecognized = 500"

section \<open>Teardown of the request's resources\<close>

text \<open>
  The two variables \<^verbatim>\<open>activeStreams\<close> and \<^verbatim>\<open>ffmpegProcess\<close> of a request, with the
  calls made on the resources so far. Streams and processes are named by handles.
\<close>

datatype call = Destroy nat | Kill nat

record resources =
  activeStreams :: "nat list"
  ffmpegProcess :: "nat option"
  calls :: "call list"

text \<open>
  \<^verbatim>\<open>
  const cleanup = () => {
    activeStreams.forEach((stream) => stream.destroy());
    activeStreams = [];
    if (ffmpegProcess) {
      ffmpegProcess.kill('SIGKILL');
      ffmpegProcess = null;
    }
  };
  \<close>
\<close>

definition cleanup :: "resources \<Rightarrow> resources" where
  "cleanup r =
     (let destroyed = calls r @ map Destroy (activeStreams r) in
      (case ffmpegProcess r of
         None \<Rightarrow> \<lparr>activeStreams = [], ffmpegProcess = None, calls = destroyed\<rparr>
       | Some p \<Rightarrow> \<lparr>activeStreams = [], ffmpegProcess = None, calls = destroyed @ [Kill p]\<rparr>))"

text \<open>The calls made on the resources after the state \<open>r\<close>, up to the state \<open>r'\<close>.\<close>

definition callsSince :: "resources \<Rightarrow> resources \<Rightarrow> call list" where
  "callsSince r r' = drop (length (calls r)) (calls r')"

definition isKill :: "call \<Rightarrow> bool" where
  "isKill c = (case c of Kill p \<Rightarrow> True | Destroy s \<Rightarrow> False)"

section \<open>The request handler\<close>

text \<open>
  What the handler of \<^verbatim>\<open>/api/media\<close> reads from a request: the query parameters
  (\<open>None\<close> when missing, which is when the defaults of the destructuring apply), the
  \<^verbatim>\<open>Range\<close> header, and \<open>urlValid\<close>, the outcome of the test
  \<^verbatim>\<open>url && typeof url === 'string' && isValidYoutubeUrl(url) && ytdl.validateURL(url)\<close>.
\<close>

record request =
  urlValid :: bool
  mode :: "string option"
  type :: "string option"
  quality :: "string option"
  downloadTarget :: "string option"
  filename :: "string option"
  enableFfmpeg :: "string option"
  rangeHeader :: "string option"

text \<open>The part of \<^verbatim>\<open>info\<close> the handler reads.\<close>

record info =
  formats :: "format list"
  title :: string

text \<open>
  What the world answers during the request: \<open>getInfo\<close> is the result of
  \<^verbatim>\<open>await ytdl.getInfo(url)\<close> (\<open>Inl\<close> the message of the error it throws), and
  \<open>ioError\<close> is the message of the error thrown inside the \<^verbatim>\<open>try\<close> block (by
  opening a stream, spawning the process or an awaited copy), \<open>None\<close> when the block
  runs to its \<^verbatim>\<open>return\<close>; \<open>headSent\<close> tells whether the head of the response had
  gone out to the client when that error was thrown.
\<close>

record world =
  getInfo :: "string + info"
  ioError :: "string option"
  headSent :: bool

text \<open>
  The headers the handler sets with \<^verbatim>\<open>res.setHeader\<close>, by name, with the values
  they are built from: the disposition and the file name, the three numbers of
  \<^verbatim>\<open>bytes start-end/contentLength\<close>, the length.
\<close>

datatype header =
    ContentDisposition string string
  | CacheControl string
  | ContentType string
  | AcceptRanges string
  | ContentRange int int nat
  | ContentLength int

text \<open>
  The body sent: a JSON error, the JSON report of a file saved to disk (its file
  name; the path and the size come from the file system), or the media bytes piped
  into the response.
\<close>

datatype body = ErrorJson string | SavedJson string | MediaBytes

text \<open>
  What the handler has done when it returns: the status and the headers set on the
  response, the body, the upstream fetches \<^verbatim>\<open>ytdl.downloadFromInfo(info, options)\<close> in
  the order made (the format and the \<^verbatim>\<open>range\<close> option), and the arguments of the
  spawned \<^verbatim>\<open>ffmpeg\<close> process, if any.
\<close>

record response =
  statusCode :: nat
  headers :: "header list"
  body :: body
  fetches :: "(format \<times> range_window option) list"
  spawned :: "string list option"

text \<open>A query parameter with the default of the destructuring pattern.\<close>

definition orDefault :: "string option \<Rightarrow> string \<Rightarrow> string" where
  "orDefault v d = (case v of None \<Rightarrow> d | Some x \<Rightarrow> x)"

text \<open>\<^verbatim>\<open>s.endsWith(suffix)\<close>\<close>

definition endsWith :: "string \<Rightarrow> string \<Rightarrow> bool" where
  "endsWith s suf = (length suf \<le> length s \<and> drop (length s - length suf) s = suf)"

text \<open>\<^verbatim>\<open>res.status(code).json({ error: msg })\<close> on a response nothing was set on.\<close>

definition jsonError :: "nat \<Rightarrow> string \<Rightarrow> response" where
  "jsonError code msg =
     \<lparr>statusCode = code, headers = [], body = ErrorJson msg, fetches = [], spawned = None\<rparr>"

text \<open>
  The \<^verbatim>\<open>catch\<close> clause: \<^verbatim>\<open>res.status(mapped.status).json({ error: mapped.message })\<close>
  on the response as the \<^verbatim>\<open>try\<close> block left it. Once the head of the response
  has gone out, the status and the body the client sees stay what they were
  (\<^verbatim>\<open>json\<close> can no longer write). The model keeps every header and fetch of the
  branch; when the error is thrown early, only some of them have happened.
\<close>

definition caught :: "string option \<Rightarrow> bool \<Rightarrow> response \<Rightarrow> response" where
  "caught err sent res =
     (case err of
        None \<Rightarrow> res
      | Some msg \<Rightarrow>
          if sent then res
          else
            (let m = mapYtdlError msg in
             res\<lparr>statusCode := status m, body := ErrorJson (message m)\<rparr>))"

text \<open>
  \<^verbatim>\<open>format.mimeType ? format.mimeType.split(';')[0] : fallback\<close>
\<close>

definition mimeOf :: "format \<Rightarrow> string \<Rightarrow> string" where
  "mimeOf fmt fallback =
     (case mimeType fmt of
        None \<Rightarrow> fallback
      | Some m \<Rightarrow> if m = [] then fallback else takeWhile (\<lambda>c. c \<noteq> CHR '';'') m)"

text \<open>
  Lines 172 to 219, the branch \<^verbatim>\<open>type === 'audio'\<close>. The variable \<^verbatim>\<open>range\<close> does
  not occur in it: the stream is opened with \<^verbatim>\<open>{ format }\<close> alone.
\<close>

definition audioBranch ::
  "format \<Rightarrow> bool \<Rightarrow> bool \<Rightarrow> string \<Rightarrow> string \<Rightarrow> response" where
  "audioBranch fmt useFfmpeg isDisk responseFilename disposition =
     (let mime = mimeOf fmt ''audio/mp4'';
          wantMp3 = (useFfmpeg \<and> endsWith responseFilename ''.mp3'');
          hs = (if \<not> isDisk then
                  [ContentDisposition disposition responseFilename, CacheControl ''no-store'',
                   ContentType (if wantMp3 then ''audio/mpeg'' else mime)]
                else [])
      in \<lparr>statusCode = 200, headers = hs,
          body = (if isDisk then SavedJson responseFilename else MediaBytes),
          fetches = [(fmt, None)],
          spawned =
            (if wantMp3 then
               Some [''-loglevel'', ''error'', ''-i'', ''pipe:3'', ''-vn'', ''-c:a'',
                     ''libmp3lame'', ''-b:a'', ''192k'', ''-f'', ''mp3'', ''pipe:1'']
             else None)\<rparr>)"

text \<open>
  Lines 221 to 258, the branch \<^verbatim>\<open>formatSelection.format\<close> of a video request: the one
  place that reads \<^verbatim>\<open>range\<close>.
\<close>

definition muxedBranch ::
  "format \<Rightarrow> range_window option \<Rightarrow> bool \<Rightarrow> string \<Rightarrow> string \<Rightarrow> response" where
  "muxedBranch fmt range1 isDisk responseFilename disposition =
     (let mime = mimeOf fmt ''video/mp4'';
          hs = (if \<not> isDisk then
                  [ContentDisposition disposition responseFilename, CacheControl ''no-store'',
                   ContentType mime, AcceptRanges ''bytes'']
                else [])
      in (case range1 of
            Some w \<Rightarrow>
              \<lparr>statusCode = (if \<not> isDisk then 206 else 200),
               headers =
                 (if \<not> isDisk then
                    hs @ [ContentRange (range_start w) (range_end w)
                            (case contentLength fmt of Some n \<Rightarrow> n | None \<Rightarrow> 0),
                          ContentLength (range_end w - range_start w + 1)]
                  else hs),
               body = (if isDisk then SavedJson responseFilename else MediaBytes),
               fetches = [(fmt, Some w)],
               spawned = None\<rparr>
          | None \<Rightarrow>
              \<lparr>statusCode = 200,
               headers =
                 (case contentLength fmt of
                    Some n \<Rightarrow> if \<not> isDisk \<and> n \<noteq> 0 then hs @ [ContentLength (int n)] else hs
                  | None \<Rightarrow> hs),
               body = (if isDisk then SavedJson responseFilename else MediaBytes),
               fetches = [(fmt, None)],
               spawned = None\<rparr>))"

text \<open>
  Lines 260 to 291, the branch that merges a video-only and an audio-only stream. On
  disk the file name is \<^verbatim>\<open>responseFilename.replace(/\.[^/.]+$/, '.mp4')\<close>, which the
  parameter \<open>forceMp4\<close> stands for.
\<close>

definition mergeBranch ::
  "(string \<Rightarrow> string) \<Rightarrow> format \<Rightarrow> format \<Rightarrow> bool \<Rightarrow> string \<Rightarrow> string \<Rightarrow> response" where
  "mergeBranch forceMp4 vfmt afmt isDisk responseFilename disposition =
     \<lparr>statusCode = 200,
      headers =
        (if \<not> isDisk then
           [ContentDisposition disposition responseFilename, CacheControl ''no-store'',
            ContentType ''video/mp4'']
         else []),
      body = (if isDisk then SavedJson (forceMp4 responseFilename) else MediaBytes),
      fetches = [(vfmt, None), (afmt, None)],
      spawned =
        Some [''-loglevel'', ''error'', ''-i'', ''pipe:3'', ''-i'', ''pipe:4'', ''-map'',
              ''0:v:0'', ''-map'', ''1:a:0'', ''-c'', ''copy'', ''-f'', ''mp4'', ''pipe:1'']\<rparr>"

text \<open>
  The functions of the JavaScript side that the handler calls and the model takes as
  parameters: \<open>numberOf\<close> is \<^verbatim>\<open>Number\<close> on the strings that are not decimal digits
  (see \<open>jsNumber\<close>), \<open>sanitizeFilename\<close> is the function of that name (two regular
  expression replacements and a trim, outside the core), and \<open>forceMp4\<close> is the
  replacement of the extension in the merge branch.
\<close>

record externals =
  numberOf :: "string \<Rightarrow> rat option"
  sanitizeFilename :: "string \<Rightarrow> string"
  forceMp4 :: "string \<Rightarrow> string"

text \<open>
  The handler \<^verbatim>\<open>app.get('/api/media', async (req, res) => ...)\<close>, lines 106 to 299.
  A read of \<^verbatim>\<open>format.mimeType\<close> on a missing format would throw a \<^verbatim>\<open>TypeError\<close>
  inside the \<^verbatim>\<open>try\<close> block; the test before line 145 excludes it for audio
  requests, and the model routes it to the \<^verbatim>\<open>catch\<close> clause.
\<close>

definition handler :: "externals \<Rightarrow> request \<Rightarrow> world \<Rightarrow> response" where
  "handler x req w =
     (if \<not> urlValid req then jsonError 400 ''Invalid YouTube URL.''
      else
        (case getInfo w of
           Inl msg \<Rightarrow>
             (let m = mapYtdlError msg in jsonError (status m) (message m))
         | Inr info1 \<Rightarrow>
             (let mode1 = orDefault (mode req) ''stream'';
                  type1 = orDefault (type req) ''video'';
                  quality1 = orDefault (quality req) ''highest'';
                  downloadTarget1 = orDefault (downloadTarget req) ''response'';
                  enableFfmpeg1 = orDefault (enableFfmpeg req) ''false'';
                  isDownload = (mode1 = ''download'');
                  useFfmpeg = (enableFfmpeg1 = ''true'' \<or> enableFfmpeg1 = ''1'');
                  title1 = sanitizeFilename x
                    (if title info1 = [] then ''youtube-media'' else title info1);
                  defaultName =
                    (case filename req of
                       None \<Rightarrow> title1
                     | Some f \<Rightarrow> if f = [] then title1 else sanitizeFilename x f);
                  formatSelection = pickFormat (numberOf x) (formats info1) type1 quality1 useFfmpeg
              in
                if format formatSelection = None \<and> videoFormat formatSelection = None then
                  jsonError 409
                    ''No muxed format available. Enable ffmpeg to merge video+audio streams.''
                else
                  (let range1 =
                         parseRangeHeader (rangeHeader req)
                           (case format formatSelection of
                              None \<Rightarrow> None
                            | Some fmt \<Rightarrow> contentLength fmt);
                       fallbackExt = (if type1 = ''audio'' then ''m4a'' else ''mp4'');
                       ext =
                         (case format formatSelection of
                            None \<Rightarrow> fallbackExt
                          | Some fmt \<Rightarrow>
                              (case container fmt of
                                 None \<Rightarrow> fallbackExt
                               | Some c \<Rightarrow> if c = [] then fallbackExt else c));
                       responseFilename =
                         (if endsWith defaultName (''.'' @ ext) then defaultName
                          else defaultName @ ''.'' @ ext);
                       isDisk = (isDownload \<and> downloadTarget1 = ''disk'');
                       disposition = (if isDownload then ''attachment'' else ''inline'')
                   in
                     if type1 = ''audio'' then
                       (case format formatSelection of
                          Some fmt \<Rightarrow>
                            caught (ioError w) (headSent w)
                              (audioBranch fmt useFfmpeg isDisk responseFilename disposition)
                        | None \<Rightarrow>
                            caught (Some ''Cannot read properties of undefined'') False
                              \<lparr>statusCode = 200, headers = [], body = MediaBytes,
                               fetches = [], spawned = None\<rparr>)
                     else
                       (case format formatSelection of
                          Some fmt \<Rightarrow>
                            caught (ioError w) (headSent w)
                              (muxedBranch fmt range1 isDisk responseFilename disposition)
                        | None \<Rightarrow>
                            (case (videoFormat formatSelection, audioFormat formatSelection) of
                               (Some vfmt, Some afmt) \<Rightarrow>
                                 if useFfmpeg then
                                   caught (ioError w) (headSent w)
                                     (mergeBranch (forceMp4 x) vfmt afmt isDisk
                                        responseFilename disposition)
                                 else jsonError 500 ''Unable to stream media.''
                             | _ \<Rightarrow> jsonError 500 ''Unable to stream media.''))))))"

section \<open>Auxiliary notions for the statements\<close>

text \<open>A window is applied by a response: status 206, a Content-Range header, or a ranged fetch.\<close>

definition isContentRange :: "header \<Rightarrow> bool" where
  "isContentRange h = (case h of ContentRange a b c \<Rightarrow> True | _ \<Rightarrow> False)"

definition rangeApplied :: "response \<Rightarrow> bool" where
  "rangeApplied res =
     (statusCode res = 206 \<or> list_ex isContentRange (headers res) \<or>
      list_ex (\<lambda>(fmt, r). r \<noteq> None) (fetches res))"

text \<open>
  Somewhere in the header, the literal \<^verbatim>\<open>bytes=\<close> (in any case) is directly followed
  by a decimal digit: the header has a numeric start.
\<close>

definition numericStartAt :: "string \<Rightarrow> bool" where
  "numericStartAt s =
     (bytesLiteral (take 6 s) \<and> (case drop 6 s of [] \<Rightarrow> False | c # cs \<Rightarrow> isDigit c))"

fun hasNumericStart :: "string \<Rightarrow> bool" where
  "hasNumericStart [] = False"
| "hasNumericStart (c # cs) = (numericStartAt (c # cs) \<or> hasNumericStart cs)"

text \<open>
  Somewhere in the header stands a clause \<^verbatim>\<open>bytes=\<close> (in any case), one decimal digit
  or more, and a dash.
\<close>

definition hasRangeClause :: "string \<Rightarrow> bool" where
  "hasRangeClause h =
     (\<exists>pre lit ds rest.
        h = pre @ lit @ ds @ CHR ''-'' # rest \<and> bytesLiteral lit \<and> ds \<noteq> [] \<and>
        list_all isDigit ds)"

text \<open>
  The single-range form of the spec, \<^verbatim>\<open>bytes=<start>-[<end>]\<close>: the whole header is
  one such clause, or one such clause followed by a comma and further clauses (which the
  spec lets the negotiator ignore).
\<close>

definition specRangeForm :: "string \<Rightarrow> bool" where
  "specRangeForm h =
     (bytesLiteral (take 6 h) \<and> takeWhile isDigit (drop 6 h) \<noteq> [] \<and>
      (case dropWhile isDigit (drop 6 h) of
         [] \<Rightarrow> False
       | c # after \<Rightarrow>
           c = CHR ''-'' \<and>
           (case dropWhile isDigit after of [] \<Rightarrow> True | c2 # others \<Rightarrow> c2 = CHR '','')))"

section \<open>Sample values\<close>

text \<open>A variant with the given tracks, rank and itag, in an mp4 container of 1000 bytes.\<close>

definition variant :: "bool \<Rightarrow> bool \<Rightarrow> nat \<Rightarrow> int \<Rightarrow> format" where
  "variant v a rank tag =
     \<lparr>hasVideo = v, hasAudio = a, container = Some ''mp4'', mimeType = None,
      contentLength = Some 1000, qualityRank = rank, itag = tag\<rparr>"

text \<open>
  A stand-in for \<^verbatim>\<open>Number\<close> on the strings that are not decimal digits, finding no
  finite number in any of them; the sample requests below never reach it.
\<close>

definition noNumber :: "string \<Rightarrow> rat option" where
  "noNumber s = None"

definition sampleExternals :: externals where
  "sampleExternals = \<lparr>numberOf = noNumber, sanitizeFilename = id, forceMp4 = id\<rparr>"

definition sampleRequest :: "string \<Rightarrow> string \<Rightarrow> string option \<Rightarrow> request" where
  "sampleRequest t ff rh =
     \<lparr>urlValid = True, mode = None, type = Some t, quality = None, downloadTarget = None,
      filename = None, enableFfmpeg = Some ff, rangeHeader = rh\<rparr>"

definition sampleWorld :: "format list \<Rightarrow> world" where
  "sampleWorld fs =
     \<lparr>getInfo = Inr \<lparr>formats = fs, title = ''clip''\<rparr>, ioError = None, headSent = False\<rparr>"

section \<open>Properties of the quality rule\<close>

lemma firstMax_mem: "firstMax b fs \<in> set (b # fs)"
  by (induction fs arbitrary: b) (auto split: if_splits)

lemma firstMin_mem: "firstMin b fs \<in> set (b # fs)"
  by (induction fs arbitrary: b) (auto split: if_splits)

lemma chooseHighest_mem: "chooseHighest cs = Some f \<Longrightarrow> f \<in> set cs"
  using firstMax_mem by (auto simp: chooseHighest_def split: list.splits)

lemma chooseLowest_mem: "chooseLowest cs = Some f \<Longrightarrow> f \<in> set cs"
  using firstMin_mem by (auto simp: chooseLowest_def split: list.splits)

lemma chooseFormat_mem: "chooseFormat cs q = Some f \<Longrightarrow> f \<in> set cs"
proof (cases q)
  case Highest
  assume "chooseFormat cs q = Some f"
  with Highest show ?thesis by (simp add: chooseFormat_def chooseHighest_mem)
next
  case Lowest
  assume "chooseFormat cs q = Some f"
  with Lowest show ?thesis by (simp add: chooseFormat_def chooseLowest_mem)
next
  case (ExactID n)
  assume ch: "chooseFormat cs q = Some f"
  show ?thesis
  proof (cases "find (\<lambda>fmt. of_int (itag fmt) = n) cs")
    case None
    with ch ExactID show ?thesis by (simp add: chooseFormat_def chooseHighest_mem)
  next
    case (Some g)
    then have "g \<in> set cs"
      by (auto simp: find_Some_iff)
    with ch ExactID Some show ?thesis by (simp add: chooseFormat_def)
  qed
qed

lemma chooseFormat_nonempty: "cs \<noteq> [] \<Longrightarrow> \<exists>f. chooseFormat cs q = Some f"
  by (cases cs; cases q)
    (auto simp: chooseFormat_def chooseHighest_def chooseLowest_def split: option.splits)

lemma firstMax_ge: "qualityRank b \<le> qualityRank (firstMax b fs) \<and>
    (\<forall>f\<in>set fs. qualityRank f \<le> qualityRank (firstMax b fs))"
proof (induction fs arbitrary: b)
  case Nil
  show ?case by simp
next
  case (Cons f fs)
  show ?case
  proof (cases "qualityRank b < qualityRank f")
    case True
    with Cons [of f] show ?thesis by auto
  next
    case False
    with Cons [of b] show ?thesis by auto
  qed
qed

lemma firstMin_le: "qualityRank (firstMin b fs) \<le> qualityRank b \<and>
    (\<forall>f\<in>set fs. qualityRank (firstMin b fs) \<le> qualityRank f)"
proof (induction fs arbitrary: b)
  case Nil
  show ?case by simp
next
  case (Cons f fs)
  show ?case
  proof (cases "qualityRank f < qualityRank b")
    case True
    with Cons [of f] show ?thesis by auto
  next
    case False
    with Cons [of b] show ?thesis by auto
  qed
qed

lemma chooseFormat_Highest_max:
  "chooseFormat cs Highest = Some a \<Longrightarrow> \<forall>f\<in>set cs. qualityRank f \<le> qualityRank a"
  using firstMax_ge by (cases cs) (auto simp: chooseFormat_def chooseHighest_def)

lemma chooseFormat_Lowest_min:
  "chooseFormat cs Lowest = Some a \<Longrightarrow> \<forall>f\<in>set cs. qualityRank a \<le> qualityRank f"
  using firstMin_le by (cases cs) (auto simp: chooseFormat_def chooseLowest_def)

lemma filter_muxed_nonempty:
  "\<exists>fmt\<in>set fs. hasVideo fmt \<and> hasAudio fmt \<Longrightarrow>
     filter (\<lambda>fmt. hasVideo fmt \<and> hasAudio fmt) fs \<noteq> []"
  by (auto simp: filter_empty_conv)

lemma parseQuality_999: "parseQuality noNumber ''999'' = ExactID 999"
  by (simp add: parseQuality_def jsNumber_def digitsNumber_def toDouble_def decimal_def isDigit_def
      digitVal_def)

section \<open>Format selection: the claims\<close>

text \<open>
  C1. For every variant list holding at least one variant with both \<open>hasVideo\<close> and
  \<open>hasAudio\<close>, a video request (any type other than \<^verbatim>\<open>'audio'\<close>) gets the single
  shape: the chosen format is one of the muxed variants of the list, and the keys of the
  pair are not set, whatever the quality string and whatever \<open>enableFfmpeg\<close>.
\<close>

theorem pickFormat_video_prefers_muxed:
  assumes mux: "\<exists>fmt\<in>set fs. hasVideo fmt \<and> hasAudio fmt"
    and video: "t \<noteq> ''audio''"
  shows "\<exists>f. pickFormat ext fs t q allow =
           \<lparr>format = Some f, audioFormat = None, videoFormat = None, isMuxed = True\<rparr> \<and>
         f \<in> set fs \<and> hasVideo f \<and> hasAudio f"
proof -
  let ?muxed = "filter (\<lambda>fmt. hasVideo fmt \<and> hasAudio fmt) fs"
  from mux have ne: "?muxed \<noteq> []" by (rule filter_muxed_nonempty)
  then obtain f where f: "chooseFormat ?muxed (parseQuality ext q) = Some f"
    using chooseFormat_nonempty by blast
  then have "f \<in> set ?muxed" by (rule chooseFormat_mem)
  then have "f \<in> set fs" "hasVideo f" "hasAudio f" by auto
  moreover from video ne f have "pickFormat ext fs t q allow =
      \<lparr>format = Some f, audioFormat = None, videoFormat = None, isMuxed = True\<rparr>"
    by (simp add: pickFormat_def Let_def)
  ultimately show ?thesis by blast
qed

theorem pickFormat_video_prefers_muxed_witness:
  "(\<exists>fmt\<in>set [variant True False 9 137, variant True True 2 18, variant False True 5 140].
      hasVideo fmt \<and> hasAudio fmt) \<and>
   ''video'' \<noteq> ''audio'' \<and>
   pickFormat noNumber [variant True False 9 137, variant True True 2 18, variant False True 5 140]
     ''video'' ''lowest'' True =
     \<lparr>format = Some (variant True True 2 18), audioFormat = None, videoFormat = None,
      isMuxed = True\<rparr>"
  using pickFormat_video_prefers_muxed
    [of "[variant True False 9 137, variant True True 2 18, variant False True 5 140]"
        "''video''" noNumber "''lowest''" True]
  by (simp add: variant_def pickFormat_def parseQuality_def chooseFormat_def chooseLowest_def)

text \<open>
  C2. When no candidate carries the identifier \<open>n\<close>, the quality rule on \<open>ExactID n\<close>
  gives what it gives on \<open>Highest\<close>; on a non-empty list that is a candidate, so the
  rule does not fail. The same holds through \<open>pickFormat\<close>: a quality string parsed as
  \<open>ExactID n\<close> selects what the string \<^verbatim>\<open>'highest'\<close> selects.
\<close>

theorem chooseFormat_unmatched_id:
  assumes "\<forall>fmt\<in>set cs. of_int (itag fmt) \<noteq> n"
  shows "chooseFormat cs (ExactID n) = chooseFormat cs Highest \<and>
         (cs \<noteq> [] \<longrightarrow> (\<exists>f. chooseFormat cs (ExactID n) = Some f \<and> f \<in> set cs)) \<and>
         (parseQuality ext q = ExactID n \<longrightarrow>
            pickFormat ext cs t q allow = pickFormat ext cs t ''highest'' allow)"
proof -
  have nofind: "\<And>P. find (\<lambda>fmt. of_int (itag fmt) = n) (filter P cs) = None"
    using assms by (auto simp: find_None_iff)
  from assms have "find (\<lambda>fmt. of_int (itag fmt) = n) cs = None"
    by (auto simp: find_None_iff)
  then have eq: "chooseFormat cs (ExactID n) = chooseFormat cs Highest"
    by (simp add: chooseFormat_def)
  have sub: "\<And>P. chooseFormat (filter P cs) (ExactID n) = chooseFormat (filter P cs) Highest"
    using nofind by (simp add: chooseFormat_def)
  have hi: "parseQuality ext ''highest'' = Highest"
    by (simp add: parseQuality_def)
  have "parseQuality ext q = ExactID n \<Longrightarrow>
          pickFormat ext cs t q allow = pickFormat ext cs t ''highest'' allow"
    using sub by (simp add: pickFormat_def Let_def hi filterFormats_audioonly_def)
  moreover have "cs \<noteq> [] \<Longrightarrow> \<exists>f. chooseFormat cs (ExactID n) = Some f \<and> f \<in> set cs"
    using chooseFormat_nonempty [of cs "ExactID n"] chooseFormat_mem by blast
  ultimately show ?thesis using eq by blast
qed

theorem chooseFormat_unmatched_id_witness:
  "chooseFormat [variant True True 2 18, variant True True 7 22] (ExactID 999) =
     Some (variant True True 7 22) \<and>
   chooseFormat [variant True True 2 18, variant True True 7 22] Highest =
     Some (variant True True 7 22) \<and>
   parseQuality noNumber ''999'' = ExactID 999 \<and>
   pickFormat noNumber [variant True True 2 18, variant True True 7 22] ''video'' ''999'' False =
     pickFormat noNumber [variant True True 2 18, variant True True 7 22] ''video'' ''highest'' False"
proof -
  have h: "\<forall>fmt\<in>set [variant True True 2 18, variant True True 7 22].
             of_int (itag fmt) \<noteq> (999::rat)"
    by (simp add: variant_def)
  have hi: "chooseFormat [variant True True 2 18, variant True True 7 22] Highest =
              Some (variant True True 7 22)"
    by (simp add: chooseFormat_def chooseHighest_def variant_def)
  from chooseFormat_unmatched_id [OF h, of noNumber "''999''" "''video''" False] hi parseQuality_999
  show ?thesis by simp
qed

text \<open>
  C4. Whenever a video request gets the pair, its video member is what the quality rule
  chooses, for the requested quality, among the variants with video and without audio,
  and its audio member is what the rule chooses for \<open>Highest\<close> among the variants with
  audio and without video: an audio-only variant of the list of the greatest rank,
  whatever quality was asked (the witness asks for \<^verbatim>\<open>'lowest'\<close>).
\<close>

theorem pickFormat_pair_members:
  assumes video: "t \<noteq> ''audio''"
    and pair: "videoFormat (pickFormat ext fs t q allow) \<noteq> None \<or>
               audioFormat (pickFormat ext fs t q allow) \<noteq> None"
  shows "videoFormat (pickFormat ext fs t q allow) =
           chooseFormat (filter (\<lambda>fmt. hasVideo fmt \<and> \<not> hasAudio fmt) fs) (parseQuality ext q) \<and>
         audioFormat (pickFormat ext fs t q allow) =
           chooseFormat (filter (\<lambda>fmt. hasAudio fmt \<and> \<not> hasVideo fmt) fs) Highest \<and>
         format (pickFormat ext fs t q allow) = None \<and>
         (\<forall>v. videoFormat (pickFormat ext fs t q allow) = Some v \<longrightarrow>
            v \<in> set fs \<and> hasVideo v \<and> \<not> hasAudio v) \<and>
         (\<forall>a. audioFormat (pickFormat ext fs t q allow) = Some a \<longrightarrow>
            a \<in> set fs \<and> hasAudio a \<and> \<not> hasVideo a \<and>
            (\<forall>fmt\<in>set fs. hasAudio fmt \<and> \<not> hasVideo fmt \<longrightarrow> qualityRank fmt \<le> qualityRank a))"
proof -
  let ?r = "pickFormat ext fs t q allow"
  let ?vo = "filter (\<lambda>fmt. hasVideo fmt \<and> \<not> hasAudio fmt) fs"
  let ?ao = "filter (\<lambda>fmt. hasAudio fmt \<and> \<not> hasVideo fmt) fs"
  from video pair have shape:
    "?r = \<lparr>format = None, audioFormat = chooseFormat ?ao Highest,
          videoFormat = chooseFormat ?vo (parseQuality ext q), isMuxed = False\<rparr>"
  proof (cases "filter (\<lambda>fmt. hasVideo fmt \<and> hasAudio fmt) fs = []")
    case True
    show ?thesis
    proof (cases allow)
      case True
      with \<open>filter (\<lambda>fmt. hasVideo fmt \<and> hasAudio fmt) fs = []\<close> video show ?thesis
        by (simp add: pickFormat_def Let_def)
    next
      case False
      with \<open>filter (\<lambda>fmt. hasVideo fmt \<and> hasAudio fmt) fs = []\<close> video
      have "?r = \<lparr>format = None, audioFormat = None, videoFormat = None, isMuxed = False\<rparr>"
        by (simp add: pickFormat_def Let_def)
      with pair show ?thesis by simp
    qed
  next
    case False
    with video
    have "?r = \<lparr>format = chooseFormat (filter (\<lambda>fmt. hasVideo fmt \<and> hasAudio fmt) fs)
                 (parseQuality ext q),
               audioFormat = None, videoFormat = None, isMuxed = True\<rparr>"
      by (simp add: pickFormat_def Let_def)
    with pair show ?thesis by simp
  qed
  have v: "\<forall>v. videoFormat ?r = Some v \<longrightarrow> v \<in> set fs \<and> hasVideo v \<and> \<not> hasAudio v"
  proof (intro allI impI)
    fix v assume "videoFormat ?r = Some v"
    with shape have "chooseFormat ?vo (parseQuality ext q) = Some v" by simp
    then have "v \<in> set ?vo" by (rule chooseFormat_mem)
    then show "v \<in> set fs \<and> hasVideo v \<and> \<not> hasAudio v" by simp
  qed
  have a: "\<forall>a. audioFormat ?r = Some a \<longrightarrow>
            a \<in> set fs \<and> hasAudio a \<and> \<not> hasVideo a \<and>
            (\<forall>fmt\<in>set fs. hasAudio fmt \<and> \<not> hasVideo fmt \<longrightarrow> qualityRank fmt \<le> qualityRank a)"
  proof (intro allI impI)
    fix a assume "audioFormat ?r = Some a"
    with shape have ch: "chooseFormat ?ao Highest = Some a" by simp
    then have "a \<in> set ?ao" by (rule chooseFormat_mem)
    moreover from ch have "\<forall>fmt\<in>set ?ao. qualityRank fmt \<le> qualityRank a"
      by (rule chooseFormat_Highest_max)
    ultimately show "a \<in> set fs \<and> hasAudio a \<and> \<not> hasVideo a \<and>
            (\<forall>fmt\<in>set fs. hasAudio fmt \<and> \<not> hasVideo fmt \<longrightarrow> qualityRank fmt \<le> qualityRank a)"
      by simp
  qed
  from shape have "videoFormat ?r = chooseFormat ?vo (parseQuality ext q)"
    "audioFormat ?r = chooseFormat ?ao Highest" "format ?r = None"
    by simp_all
  with v a show ?thesis by blast
qed

theorem pickFormat_pair_members_witness:
  "pickFormat noNumber
     [variant True False 9 137, variant True False 3 134, variant False True 5 140,
      variant False True 8 251] ''video'' ''lowest'' True =
     \<lparr>format = None, audioFormat = Some (variant False True 8 251),
      videoFormat = Some (variant True False 3 134), isMuxed = False\<rparr>"
proof -
  let ?fs = "[variant True False 9 137, variant True False 3 134, variant False True 5 140,
      variant False True 8 251]"
  have shape: "pickFormat noNumber ?fs ''video'' ''lowest'' True =
     \<lparr>format = None, audioFormat = Some (variant False True 8 251),
      videoFormat = Some (variant True False 3 134), isMuxed = False\<rparr>"
    by (simp add: variant_def pickFormat_def parseQuality_def chooseFormat_def
        chooseLowest_def chooseHighest_def)
  have v: "''video'' \<noteq> ''audio''" by simp
  from shape have p: "videoFormat (pickFormat noNumber ?fs ''video'' ''lowest'' True) \<noteq> None \<or>
      audioFormat (pickFormat noNumber ?fs ''video'' ''lowest'' True) \<noteq> None"
    by simp
  from pickFormat_pair_members [OF v p] shape show ?thesis by simp
qed

section \<open>Range negotiation: the claims\<close>

lemma toDouble_small: "n < 2 ^ 53 \<Longrightarrow> toDouble n = Some n"
  by (simp add: toDouble_def)

lemma toDouble_2_53: "toDouble 9007199254740992 = Some 9007199254740992"
  by (simp add: toDouble_def Let_def bitLength.simps)

lemma minusOne_exact:
  assumes "0 < len" and "len \<le> 2 ^ 53"
  shows "minusOne len = Some (int len - 1)"
proof -
  have d: "toDouble len = Some len"
  proof (cases "len < 2 ^ 53")
    case True
    then show ?thesis by (rule toDouble_small)
  next
    case False
    with assms(2) have "len = 9007199254740992" by simp
    then show ?thesis by (simp add: toDouble_2_53)
  qed
  from assms have "len - 1 < 2 ^ 53" by simp
  then have "toDouble (len - 1) = Some (len - 1)" by (rule toDouble_small)
  with d assms(1) show ?thesis
    by (simp add: minusOne_def of_nat_diff)
qed

lemma digitsNumber_nonneg: "digitsNumber s = Some n \<Longrightarrow> 0 \<le> n"
  by (auto simp: digitsNumber_def)

lemma parseRangeHeader_Some:
  assumes "parseRangeHeader (Some hdr) (Some len) = Some w"
  shows "len \<noteq> 0 \<and>
    (\<exists>m1 m2 st en. regexExec hdr = Some (m1, m2) \<and> digitsNumber m1 = Some st \<and>
       (if m2 \<noteq> [] then digitsNumber m2 else minusOne len) = Some en \<and>
       st \<le> en \<and> w = \<lparr>range_start = st, range_end = en\<rparr>)"
proof -
  from assms have t: "len \<noteq> 0"
    by (auto simp: parseRangeHeader_def split: if_splits)
  from assms obtain m1 m2 where m: "regexExec hdr = Some (m1, m2)"
    by (cases "regexExec hdr") (auto simp: parseRangeHeader_def split: if_splits)
  from assms t m obtain st where st: "digitsNumber m1 = Some st"
    by (cases "digitsNumber m1") (auto simp: parseRangeHeader_def Let_def split: if_splits)
  from assms t m st obtain en
    where en: "(if m2 \<noteq> [] then digitsNumber m2 else minusOne len) = Some en"
    by (cases "if m2 \<noteq> [] then digitsNumber m2 else minusOne len")
      (auto simp: parseRangeHeader_def Let_def split: if_splits)
  from assms t m st en have "st \<le> en \<and> w = \<lparr>range_start = st, range_end = en\<rparr>"
    by (cases "hdr = []") (auto simp: parseRangeHeader_def Let_def split: if_splits)
  with t m st en show ?thesis by blast
qed

lemma takeWhile_nonempty_hd:
  "takeWhile P xs \<noteq> [] \<Longrightarrow> \<exists>y ys. xs = y # ys \<and> P y"
  by (cases xs) (auto split: if_splits)

lemma matchHere_numeric: "matchHere s = Some m \<Longrightarrow> numericStartAt s"
proof -
  assume a: "matchHere s = Some m"
  then have lit: "bytesLiteral (take 6 s)"
    by (auto simp: matchHere_def split: if_splits)
  from a have "takeWhile isDigit (drop 6 s) \<noteq> []"
    by (auto simp: matchHere_def Let_def split: if_splits list.splits)
  then obtain y ys where "drop 6 s = y # ys" "isDigit y"
    using takeWhile_nonempty_hd by blast
  with lit show ?thesis by (simp add: numericStartAt_def)
qed

lemma regexExec_numeric: "regexExec h = Some m \<Longrightarrow> hasNumericStart h"
proof (induction h)
  case Nil
  then show ?case by simp
next
  case (Cons c cs)
  show ?case
  proof (cases "matchHere (c # cs)")
    case None
    with Cons show ?thesis by simp
  next
    case (Some m')
    then have "numericStartAt (c # cs)" by (rule matchHere_numeric)
    then show ?thesis by simp
  qed
qed

lemma parseRangeHeader_no_match:
  "regexExec hdr = None \<Longrightarrow> parseRangeHeader (Some hdr) sz = None"
  by (simp add: parseRangeHeader_def split: option.splits)

text \<open>The pattern matches at the head of a string exactly when a clause stands there.\<close>

lemma matchHere_clause:
  assumes "bytesLiteral lit" and "ds \<noteq> []" and "list_all isDigit ds"
  shows "matchHere (lit @ ds @ CHR ''-'' # rest) = Some (ds, takeWhile isDigit rest)"
proof -
  from assms(1) have len: "length lit = 6" by (simp add: bytesLiteral_def)
  have nd: "\<not> isDigit CHR ''-''" by (simp add: isDigit_def)
  from assms(3) have all: "\<forall>x\<in>set ds. isDigit x" by (simp add: list_all_iff)
  from all nd have tw: "takeWhile isDigit (ds @ CHR ''-'' # rest) = ds"
    by (simp add: takeWhile_append2)
  from all nd have dw: "dropWhile isDigit (ds @ CHR ''-'' # rest) = CHR ''-'' # rest"
    by (simp add: dropWhile_append2)
  from len assms(1,2) tw dw show ?thesis
    by (simp add: matchHere_def Let_def)
qed

lemma matchHere_shape:
  assumes "matchHere s = Some (d1, d2)"
  shows "\<exists>lit rest. s = lit @ d1 @ CHR ''-'' # rest \<and> bytesLiteral lit \<and> d1 \<noteq> [] \<and>
           list_all isDigit d1"
proof -
  from assms have lit: "bytesLiteral (take 6 s)"
    by (auto simp: matchHere_def split: if_splits)
  from assms obtain after where dw: "dropWhile isDigit (drop 6 s) = CHR ''-'' # after"
    and d1: "d1 = takeWhile isDigit (drop 6 s)" and ne: "d1 \<noteq> []"
    by (auto simp: matchHere_def Let_def split: if_splits list.splits)
  have "drop 6 s = takeWhile isDigit (drop 6 s) @ dropWhile isDigit (drop 6 s)"
    by simp
  with dw d1 have "drop 6 s = d1 @ CHR ''-'' # after" by simp
  then have "s = take 6 s @ d1 @ CHR ''-'' # after"
    by (metis append_take_drop_id)
  moreover from d1 have "list_all isDigit d1"
    by (auto simp: list_all_iff dest: set_takeWhileD)
  ultimately show ?thesis using lit ne by blast
qed

lemma regexExec_clause: "regexExec h = Some m \<Longrightarrow> hasRangeClause h"
proof (induction h)
  case Nil
  then show ?case by simp
next
  case (Cons c cs)
  show ?case
  proof (cases "matchHere (c # cs)")
    case None
    with Cons have "hasRangeClause cs" by simp
    then obtain pre lit ds rest where
      "cs = pre @ lit @ ds @ CHR ''-'' # rest" "bytesLiteral lit" "ds \<noteq> []" "list_all isDigit ds"
      by (auto simp: hasRangeClause_def)
    then have "c # cs = (c # pre) @ lit @ ds @ CHR ''-'' # rest \<and> bytesLiteral lit \<and>
        ds \<noteq> [] \<and> list_all isDigit ds"
      by simp
    then show ?thesis unfolding hasRangeClause_def by blast
  next
    case (Some m')
    obtain d1 d2 where "m' = (d1, d2)" by (cases m')
    with Some matchHere_shape [of "c # cs" d1 d2] obtain lit rest where
      "c # cs = [] @ lit @ d1 @ CHR ''-'' # rest \<and> bytesLiteral lit \<and> d1 \<noteq> [] \<and>
         list_all isDigit d1"
      by auto
    then show ?thesis unfolding hasRangeClause_def by blast
  qed
qed

lemma regexExec_append: "regexExec s \<noteq> None \<Longrightarrow> regexExec (pre @ s) \<noteq> None"
  by (induction pre) (auto split: option.splits)

lemma clause_regexExec: "hasRangeClause h \<Longrightarrow> regexExec h \<noteq> None"
proof -
  assume "hasRangeClause h"
  then obtain pre lit ds rest where h: "h = pre @ lit @ ds @ CHR ''-'' # rest"
    and c: "bytesLiteral lit" "ds \<noteq> []" "list_all isDigit ds"
    by (auto simp: hasRangeClause_def)
  from c have m: "matchHere (lit @ ds @ CHR ''-'' # rest) = Some (ds, takeWhile isDigit rest)"
    by (rule matchHere_clause)
  from c(2) obtain x xs where "lit @ ds @ CHR ''-'' # rest = x # xs"
    by (cases "lit @ ds @ CHR ''-'' # rest") auto
  with m have "regexExec (lit @ ds @ CHR ''-'' # rest) \<noteq> None" by simp
  then have "regexExec (pre @ lit @ ds @ CHR ''-'' # rest) \<noteq> None"
    by (rule regexExec_append)
  with h show ?thesis by simp
qed

lemmas range_eval =
  parseRangeHeader_def matchHere_def bytesLiteral_def isDigit_def digitsNumber_def toDouble_def
  minusOne_def decimal_def digitVal_def Let_def

text \<open>
  Above \<open>2^53\<close> the numbers read from the header are rounded: the start
  \<open>9007199254740993\<close> is read as \<open>9007199254740992\<close>, which does not exceed the end.
\<close>

lemma parseRangeHeader_rounds:
  "parseRangeHeader (Some ''bytes=9007199254740993-9007199254740992'') (Some 1000) =
     Some \<lparr>range_start = 9007199254740992, range_end = 9007199254740992\<rparr>"
  by (simp add: range_eval bitLength.simps)



text \<open>
  C5. Every window \<open>parseRangeHeader\<close> returns for a known total length has
  \<open>0 \<le> start \<le> end\<close>. When the end part of the matched clause is missing, the end is
  the total length less one as JavaScript computes it, which for a total length up to
  \<open>2^53\<close> is exactly the total length less one, and then the start lies within the
  total length as well. The header \<^verbatim>\<open>bytes=100-\<close> on 1000 bytes gives the window from
  100 to 999. The counterexample is the header \<^verbatim>\<open>bytes=0-5000\<close> on 1000 bytes, whose
  window ends at 5000; and on \<open>2^53 + 2\<close> bytes the header \<^verbatim>\<open>bytes=0-\<close> gives the end
  \<open>2^53\<close>, two short of the total length.
\<close>

theorem parseRangeHeader_window:
  "(parseRangeHeader (Some hdr) (Some len) = Some w \<longrightarrow>
      0 \<le> range_start w \<and> range_start w \<le> range_end w) \<and>
   (parseRangeHeader (Some hdr) (Some len) = Some w \<and> regexExec hdr = Some (m1, []) \<longrightarrow>
      minusOne len = Some (range_end w)) \<and>
   (parseRangeHeader (Some hdr) (Some len) = Some w \<and> regexExec hdr = Some (m1, []) \<and>
      len \<le> 2 ^ 53 \<longrightarrow>
      range_end w = int len - 1 \<and> range_start w \<le> int len - 1) \<and>
   parseRangeHeader (Some ''bytes=100-'') (Some 1000) = Some \<lparr>range_start = 100, range_end = 999\<rparr>"
proof -
  have a: "parseRangeHeader (Some hdr) (Some len) = Some w \<longrightarrow>
      0 \<le> range_start w \<and> range_start w \<le> range_end w"
  proof
    assume "parseRangeHeader (Some hdr) (Some len) = Some w"
    from parseRangeHeader_Some [OF this] obtain m1 m2 st en where
      "digitsNumber m1 = Some st" "st \<le> en" "w = \<lparr>range_start = st, range_end = en\<rparr>"
      by blast
    then show "0 \<le> range_start w \<and> range_start w \<le> range_end w"
      using digitsNumber_nonneg [of m1 st] by simp
  qed
  have b: "parseRangeHeader (Some hdr) (Some len) = Some w \<and> regexExec hdr = Some (m1, []) \<longrightarrow>
      minusOne len = Some (range_end w)"
  proof
    assume h: "parseRangeHeader (Some hdr) (Some len) = Some w \<and> regexExec hdr = Some (m1, [])"
    from parseRangeHeader_Some [of hdr len w] h obtain st en where
      "minusOne len = Some en" "w = \<lparr>range_start = st, range_end = en\<rparr>"
      by auto
    then show "minusOne len = Some (range_end w)" by simp
  qed
  have c: "parseRangeHeader (Some hdr) (Some len) = Some w \<and> regexExec hdr = Some (m1, []) \<and>
      len \<le> 2 ^ 53 \<longrightarrow> range_end w = int len - 1 \<and> range_start w \<le> int len - 1"
  proof
    assume h: "parseRangeHeader (Some hdr) (Some len) = Some w \<and> regexExec hdr = Some (m1, []) \<and>
      len \<le> 2 ^ 53"
    from parseRangeHeader_Some [of hdr len w] h obtain st en where
      p: "len \<noteq> 0" "minusOne len = Some en" "st \<le> en" "w = \<lparr>range_start = st, range_end = en\<rparr>"
      by auto
    from p(1) h have "minusOne len = Some (int len - 1)"
      by (simp add: minusOne_exact)
    with p show "range_end w = int len - 1 \<and> range_start w \<le> int len - 1" by simp
  qed
  have d: "parseRangeHeader (Some ''bytes=100-'') (Some 1000) =
      Some \<lparr>range_start = 100, range_end = 999\<rparr>"
    by (simp add: range_eval)
  from a b c d show ?thesis by blast
qed

theorem parseRangeHeader_window_witness:
  "parseRangeHeader (Some ''bytes=0-499'') (Some 1000) =
     Some \<lparr>range_start = 0, range_end = 499\<rparr> \<and>
   parseRangeHeader (Some ''Bytes=250-'') (Some 1000) =
     Some \<lparr>range_start = 250, range_end = 999\<rparr> \<and>
   regexExec ''Bytes=250-'' = Some (''250'', []) \<and>
   (1000::nat) \<le> 2 ^ 53 \<and>
   minusOne 1000 = Some 999 \<and>
   range_end \<lparr>range_start = 250, range_end = 999\<rparr> = int 1000 - 1 \<and>
   range_start \<lparr>range_start = 250, range_end = 999\<rparr> \<le> int 1000 - 1"
proof -
  have p1: "parseRangeHeader (Some ''bytes=0-499'') (Some 1000) =
     Some \<lparr>range_start = 0, range_end = 499\<rparr>"
    by (simp add: range_eval)
  have p2: "parseRangeHeader (Some ''Bytes=250-'') (Some 1000) =
     Some \<lparr>range_start = 250, range_end = 999\<rparr>"
    by (simp add: range_eval)
  have r2: "regexExec ''Bytes=250-'' = Some (''250'', [])"
    by (simp add: matchHere_def bytesLiteral_def isDigit_def Let_def)
  have l: "(1000::nat) \<le> 2 ^ 53"
    by simp
  from parseRangeHeader_window
      [of "''bytes=0-499''" 1000 "\<lparr>range_start = 0, range_end = 499\<rparr>" "''0''"]
    parseRangeHeader_window
      [of "''Bytes=250-''" 1000 "\<lparr>range_start = 250, range_end = 999\<rparr>" "''250''"]
    p1 p2 r2 l
  show ?thesis by simp
qed

theorem parseRangeHeader_window_counterexample:
  "parseRangeHeader (Some ''bytes=0-5000'') (Some 1000) =
     Some \<lparr>range_start = 0, range_end = 5000\<rparr> \<and>
   \<not> range_end \<lparr>range_start = 0, range_end = 5000\<rparr> \<le> int 1000 - 1 \<and>
   parseRangeHeader (Some ''bytes=0-'') (Some 9007199254740994) =
     Some \<lparr>range_start = 0, range_end = 9007199254740992\<rparr> \<and>
   range_end \<lparr>range_start = 0, range_end = 9007199254740992\<rparr> \<noteq> int 9007199254740994 - 1"
  by (simp add: range_eval bitLength.simps)

text \<open>
  C6. \<open>parseRangeHeader\<close> returns \<open>None\<close>, and being a total function raises nothing,
  when the header is absent, when the total length is unknown, when no clause
  \<^verbatim>\<open>bytes=\<close>, digits, dash stands anywhere in the header, in particular when no
  \<^verbatim>\<open>bytes=\<close> in it is followed by a digit (a non-numeric start), and when the start
  read from the matched clause exceeds the end, read from the clause or defaulted, both
  as JavaScript numbers. A malformed header that holds such a clause is not among these
  cases: the counterexample is \<^verbatim>\<open>bytes=5-abc\<close>, which is not of the spec's
  single-range form and gets the window from 5 to 999 on 1000 bytes.
\<close>

theorem parseRangeHeader_none:
  "parseRangeHeader None sz = None \<and>
   parseRangeHeader h None = None \<and>
   (\<not> hasRangeClause hdr \<longrightarrow> parseRangeHeader (Some hdr) sz = None) \<and>
   (\<not> hasNumericStart hdr \<longrightarrow> parseRangeHeader (Some hdr) sz = None) \<and>
   (regexExec hdr = Some (m1, m2) \<and> m2 \<noteq> [] \<and> digitsNumber m1 = Some a \<and>
      digitsNumber m2 = Some b \<and> b < a \<longrightarrow>
      parseRangeHeader (Some hdr) sz = None) \<and>
   (regexExec hdr = Some (m1, []) \<and> digitsNumber m1 = Some a \<and> minusOne len = Some e \<and>
      e < a \<longrightarrow>
      parseRangeHeader (Some hdr) (Some len) = None)"
proof -
  have a: "parseRangeHeader None sz = None"
    by (simp add: parseRangeHeader_def)
  have b: "parseRangeHeader h None = None"
    by (simp add: parseRangeHeader_def split: option.splits)
  have c: "\<not> hasRangeClause hdr \<longrightarrow> parseRangeHeader (Some hdr) sz = None"
  proof
    assume n: "\<not> hasRangeClause hdr"
    have "regexExec hdr = None"
    proof (cases "regexExec hdr")
      case None
      then show ?thesis .
    next
      case (Some m)
      then have "hasRangeClause hdr" by (rule regexExec_clause)
      with n show ?thesis by simp
    qed
    then show "parseRangeHeader (Some hdr) sz = None" by (rule parseRangeHeader_no_match)
  qed
  have d: "\<not> hasNumericStart hdr \<longrightarrow> parseRangeHeader (Some hdr) sz = None"
  proof
    assume n: "\<not> hasNumericStart hdr"
    have "regexExec hdr = None"
    proof (cases "regexExec hdr")
      case None
      then show ?thesis .
    next
      case (Some m)
      then have "hasNumericStart hdr" by (rule regexExec_numeric)
      with n show ?thesis by simp
    qed
    then show "parseRangeHeader (Some hdr) sz = None" by (rule parseRangeHeader_no_match)
  qed
  have e: "regexExec hdr = Some (m1, m2) \<and> m2 \<noteq> [] \<and> digitsNumber m1 = Some a \<and>
      digitsNumber m2 = Some b \<and> b < a \<longrightarrow> parseRangeHeader (Some hdr) sz = None"
    by (auto simp: parseRangeHeader_def Let_def split: option.splits)
  have f: "regexExec hdr = Some (m1, []) \<and> digitsNumber m1 = Some a \<and> minusOne len = Some e \<and>
      e < a \<longrightarrow> parseRangeHeader (Some hdr) (Some len) = None"
    by (auto simp: parseRangeHeader_def Let_def split: option.splits)
  from a b c d e f show ?thesis by blast
qed

theorem parseRangeHeader_none_witness:
  "parseRangeHeader (Some ''items=0-5'') (Some 1000) = None \<and>
   parseRangeHeader (Some ''bytes=5'') (Some 1000) = None \<and>
   parseRangeHeader (Some ''bytes=abc-100'') (Some 1000) = None \<and>
   parseRangeHeader (Some ''bytes=-500'') (Some 1000) = None \<and>
   parseRangeHeader (Some ''bytes=500-100'') (Some 1000) = None \<and>
   parseRangeHeader (Some ''bytes=1000-'') (Some 1000) = None \<and>
   parseRangeHeader None (Some 1000) = None \<and>
   parseRangeHeader (Some ''bytes=0-499'') None = None"
proof -
  have a1: "\<not> hasRangeClause ''items=0-5''"
  proof
    assume "hasRangeClause ''items=0-5''"
    then have "regexExec ''items=0-5'' \<noteq> None" by (rule clause_regexExec)
    then show False by (simp add: matchHere_def bytesLiteral_def isDigit_def Let_def)
  qed
  have a2: "\<not> hasRangeClause ''bytes=5''"
  proof
    assume "hasRangeClause ''bytes=5''"
    then have "regexExec ''bytes=5'' \<noteq> None" by (rule clause_regexExec)
    then show False by (simp add: matchHere_def bytesLiteral_def isDigit_def Let_def)
  qed
  have b: "\<not> hasNumericStart ''bytes=abc-100''"
    by (simp add: numericStartAt_def bytesLiteral_def isDigit_def)
  have c: "\<not> hasNumericStart ''bytes=-500''"
    by (simp add: numericStartAt_def bytesLiteral_def isDigit_def)
  have d: "regexExec ''bytes=500-100'' = Some (''500'', ''100'') \<and> ''100'' \<noteq> [] \<and>
      digitsNumber ''500'' = Some 500 \<and> digitsNumber ''100'' = Some 100 \<and> (100::int) < 500"
    by (simp add: range_eval)
  have e: "regexExec ''bytes=1000-'' = Some (''1000'', []) \<and>
      digitsNumber ''1000'' = Some 1000 \<and> minusOne 1000 = Some 999 \<and> (999::int) < 1000"
    by (simp add: range_eval)
  from parseRangeHeader_none
      [of "Some 1000" "Some ''bytes=0-499''" "''items=0-5''" "''0''" "''0''" 0 0 1000 0]
    parseRangeHeader_none [of "Some 1000" None "''bytes=5''" "''0''" "''0''" 0 0 1000 0]
    parseRangeHeader_none [of "Some 1000" None "''bytes=abc-100''" "''0''" "''0''" 0 0 1000 0]
    parseRangeHeader_none [of "Some 1000" None "''bytes=-500''" "''0''" "''0''" 0 0 1000 0]
    parseRangeHeader_none [of "Some 1000" None "''bytes=500-100''" "''500''" "''100''" 500 100 1000 0]
    parseRangeHeader_none [of "Some 1000" None "''bytes=1000-''" "''1000''" "[]" 1000 0 1000 999]
    a1 a2 b c d e
  show ?thesis by simp
qed

theorem parseRangeHeader_malformed_counterexample:
  "\<not> specRangeForm ''bytes=5-abc'' \<and>
   parseRangeHeader (Some ''bytes=5-abc'') (Some 1000) =
     Some \<lparr>range_start = 5, range_end = 999\<rparr>"
  by (simp add: specRangeForm_def range_eval)

section \<open>Teardown: the claim\<close>

lemma cleanup_fields:
  "activeStreams (cleanup r) = [] \<and> ffmpegProcess (cleanup r) = None \<and>
   calls (cleanup r) = calls r @ map Destroy (activeStreams r) @
     (case ffmpegProcess r of None \<Rightarrow> [] | Some p \<Rightarrow> [Kill p])"
  by (simp add: cleanup_def Let_def split: option.splits)

lemma count_list_map_Destroy:
  "distinct xs \<Longrightarrow> count_list (map Destroy xs) (Destroy s) \<le> 1"
  by (induction xs) (auto simp: count_list_0_iff)

text \<open>
  C7. Teardown is idempotent: from every state of the registry, \<open>cleanup\<close> run twice
  ends in the state \<open>cleanup\<close> run once ends in, and the second run makes no call on any
  resource, so nothing is closed again and nothing can fail there. Over the two runs the
  registered streams are destroyed in order, each entry once (each stream at most once,
  the registry holding a stream once), and the process, if any, is killed once.
\<close>

theorem cleanup_idempotent:
  "cleanup (cleanup r) = cleanup r \<and>
   callsSince (cleanup r) (cleanup (cleanup r)) = [] \<and>
   callsSince r (cleanup (cleanup r)) =
     map Destroy (activeStreams r) @
     (case ffmpegProcess r of None \<Rightarrow> [] | Some p \<Rightarrow> [Kill p]) \<and>
   (distinct (activeStreams r) \<longrightarrow>
      (\<forall>s. count_list (callsSince r (cleanup (cleanup r))) (Destroy s) \<le> 1)) \<and>
   length (filter isKill (callsSince r (cleanup (cleanup r)))) \<le> 1"
proof -
  have idem: "cleanup (cleanup r) = cleanup r"
    by (simp add: cleanup_def Let_def split: option.splits)
  have since: "callsSince r (cleanup r) =
     map Destroy (activeStreams r) @
     (case ffmpegProcess r of None \<Rightarrow> [] | Some p \<Rightarrow> [Kill p])"
    by (simp add: callsSince_def cleanup_fields)
  have again: "callsSince (cleanup r) (cleanup (cleanup r)) = []"
    by (simp add: idem callsSince_def)
  have destroy: "distinct (activeStreams r) \<longrightarrow>
      (\<forall>s. count_list (callsSince r (cleanup r)) (Destroy s) \<le> 1)"
  proof (intro impI allI)
    fix s assume "distinct (activeStreams r)"
    then have "count_list (map Destroy (activeStreams r)) (Destroy s) \<le> 1"
      by (rule count_list_map_Destroy)
    then show "count_list (callsSince r (cleanup r)) (Destroy s) \<le> 1"
      by (simp add: since count_list_append split: option.splits)
  qed
  have kill: "length (filter isKill (callsSince r (cleanup r))) \<le> 1"
    by (simp add: since isKill_def filter_map comp_def split: option.splits)
  from idem since again destroy kill show ?thesis by simp
qed

theorem cleanup_idempotent_witness:
  "cleanup (cleanup \<lparr>activeStreams = [1, 2], ffmpegProcess = Some 7, calls = []\<rparr>) =
     \<lparr>activeStreams = [], ffmpegProcess = None, calls = [Destroy 1, Destroy 2, Kill 7]\<rparr> \<and>
   count_list (callsSince \<lparr>activeStreams = [1, 2], ffmpegProcess = Some 7, calls = []\<rparr>
     (cleanup (cleanup \<lparr>activeStreams = [1, 2], ffmpegProcess = Some 7, calls = []\<rparr>)))
     (Destroy 2) \<le> 1"
proof -
  let ?r = "\<lparr>activeStreams = [1, 2], ffmpegProcess = Some 7, calls = []\<rparr>"
  note t = cleanup_idempotent [of ?r]
  have d: "distinct (activeStreams ?r)"
    by simp
  have c: "cleanup ?r =
     \<lparr>activeStreams = [], ffmpegProcess = None, calls = [Destroy 1, Destroy 2, Kill 7]\<rparr>"
    by (simp add: cleanup_def)
  from t have "cleanup (cleanup ?r) = cleanup ?r"
    by (rule conjunct1)
  from this c have first: "cleanup (cleanup ?r) =
     \<lparr>activeStreams = [], ffmpegProcess = None, calls = [Destroy 1, Destroy 2, Kill 7]\<rparr>"
    by (rule trans)
  from t d have "\<forall>s. count_list (callsSince ?r (cleanup (cleanup ?r))) (Destroy s) \<le> 1"
    by blast
  then have second: "count_list (callsSince ?r (cleanup (cleanup ?r))) (Destroy 2) \<le> 1"
    by (rule spec)
  from first second show ?thesis by (rule conjI)
qed

section \<open>Failure statuses: the claim\<close>

text \<open>
  C9. The status \<open>mapYtdlError\<close> gives is the one the spec's table gives the reason
  the message carries: 403 for private and for age-restricted content, 410 for removed
  content, 403 for forbidden access, 400 for live content, and 500 when the message
  carries none of the markers. The markers are tested in the order of the code, so a
  later reason is recognised when no earlier marker occurs in the message.
\<close>

theorem mapYtdlError_status:
  "(includes_str msg ''private'' \<longrightarrow> status (mapYtdlError msg) = reasonStatus Private) \<and>
   (includes_str msg ''age-restricted'' \<longrightarrow> status (mapYtdlError msg) = reasonStatus AgeRestricted) \<and>
   (includes_str msg ''410'' \<and> \<not> includes_str msg ''private'' \<and>
      \<not> includes_str msg ''age-restricted'' \<longrightarrow>
      status (mapYtdlError msg) = reasonStatus Removed) \<and>
   (includes_str msg ''403'' \<and> \<not> includes_str msg ''410'' \<longrightarrow>
      status (mapYtdlError msg) = reasonStatus Forbidden) \<and>
   (includes_str msg ''Live'' \<and> \<not> includes_str msg ''private'' \<and>
      \<not> includes_str msg ''age-restricted'' \<and> \<not> includes_str msg ''410'' \<and>
      \<not> includes_str msg ''403'' \<longrightarrow>
      status (mapYtdlError msg) = reasonStatus Live) \<and>
   (\<not> includes_str msg ''private'' \<and> \<not> includes_str msg ''age-restricted'' \<and>
      \<not> includes_str msg ''410'' \<and> \<not> includes_str msg ''403'' \<and> \<not> includes_str msg ''Live'' \<longrightarrow>
      status (mapYtdlError msg) = reasonStatus Unrecognized) \<and>
   reasonStatus Private = 403 \<and> reasonStatus AgeRestricted = 403 \<and> reasonStatus Removed = 410 \<and>
   reasonStatus Live = 400 \<and> reasonStatus Forbidden = 403 \<and> reasonStatus Unrecognized = 500 \<and>
   status (mapYtdlError msg) \<in> {400, 403, 410, 500}"
  by (simp add: mapYtdlError_def)

theorem mapYtdlError_status_witness:
  "status (mapYtdlError ''This is a private video.'') = 403 \<and>
   status (mapYtdlError ''This video is age-restricted.'') = 403 \<and>
   status (mapYtdlError ''Status code: 410'') = 410 \<and>
   status (mapYtdlError ''Status code: 403'') = 403 \<and>
   status (mapYtdlError ''Live streams are not available.'') = 400 \<and>
   status (mapYtdlError ''socket hang up'') = 500"
proof -
  have a: "includes_str ''This is a private video.'' ''private''"
    by simp
  have b: "includes_str ''This video is age-restricted.'' ''age-restricted''"
    by simp
  have c: "includes_str ''Status code: 410'' ''410'' \<and>
      \<not> includes_str ''Status code: 410'' ''private'' \<and>
      \<not> includes_str ''Status code: 410'' ''age-restricted''"
    by simp
  have d: "includes_str ''Status code: 403'' ''403'' \<and>
      \<not> includes_str ''Status code: 403'' ''410''"
    by simp
  have e: "includes_str ''Live streams are not available.'' ''Live'' \<and>
      \<not> includes_str ''Live streams are not available.'' ''private'' \<and>
      \<not> includes_str ''Live streams are not available.'' ''age-restricted'' \<and>
      \<not> includes_str ''Live streams are not available.'' ''410'' \<and>
      \<not> includes_str ''Live streams are not available.'' ''403''"
    by simp
  have f: "\<not> includes_str ''socket hang up'' ''private'' \<and>
      \<not> includes_str ''socket hang up'' ''age-restricted'' \<and>
      \<not> includes_str ''socket hang up'' ''410'' \<and>
      \<not> includes_str ''socket hang up'' ''403'' \<and>
      \<not> includes_str ''socket hang up'' ''Live''"
    by simp
  from mapYtdlError_status [of "''This is a private video.''"] a
  have 1: "status (mapYtdlError ''This is a private video.'') = 403" by simp
  from mapYtdlError_status [of "''This video is age-restricted.''"] b
  have 2: "status (mapYtdlError ''This video is age-restricted.'') = 403" by simp
  from mapYtdlError_status [of "''Status code: 410''"] c
  have 3: "status (mapYtdlError ''Status code: 410'') = 410" by simp
  from mapYtdlError_status [of "''Status code: 403''"] d
  have 4: "status (mapYtdlError ''Status code: 403'') = 403" by simp
  from mapYtdlError_status [of "''Live streams are not available.''"] e
  have 5: "status (mapYtdlError ''Live streams are not available.'') = 400" by simp
  from mapYtdlError_status [of "''socket hang up''"] f
  have 6: "status (mapYtdlError ''socket hang up'') = 500" by simp
  from 1 2 3 4 5 6 show ?thesis by blast
qed

section \<open>The request handler: the claims\<close>

lemma mapYtdlError_not_206: "status (mapYtdlError msg) \<noteq> 206"
  by (simp add: mapYtdlError_def)

lemma jsonError_quiet: "c \<noteq> 206 \<Longrightarrow> \<not> rangeApplied (jsonError c m)"
  by (simp add: rangeApplied_def jsonError_def)

lemma untouched_quiet:
  "\<not> rangeApplied \<lparr>statusCode = 200, headers = [], body = b, fetches = [], spawned = sp\<rparr>"
  by (simp add: rangeApplied_def)

lemma caught_quiet: "\<not> rangeApplied res \<Longrightarrow> \<not> rangeApplied (caught e sent res)"
  by (cases e) (simp_all add: caught_def rangeApplied_def Let_def mapYtdlError_not_206)

lemma audioBranch_quiet: "\<not> rangeApplied (audioBranch fmt u d n p)"
  by (simp add: audioBranch_def rangeApplied_def Let_def isContentRange_def)

lemma mergeBranch_quiet: "\<not> rangeApplied (mergeBranch g v a d n p)"
  by (simp add: mergeBranch_def rangeApplied_def isContentRange_def)

lemma muxedBranch_quiet: "\<not> rangeApplied (muxedBranch fmt None d n p)"
  by (simp add: muxedBranch_def rangeApplied_def Let_def isContentRange_def split: option.splits)

lemma pickFormat_video_format:
  assumes "t \<noteq> ''audio''" and "format (pickFormat ext fs t q u) = Some fmt"
  shows "pickFormat ext fs t q u =
           \<lparr>format = Some fmt, audioFormat = None, videoFormat = None, isMuxed = True\<rparr> \<and>
         fmt \<in> set fs \<and> hasVideo fmt \<and> hasAudio fmt"
proof (cases "filter (\<lambda>fmt. hasVideo fmt \<and> hasAudio fmt) fs = []")
  case True
  with assms show ?thesis
    by (cases u) (simp_all add: pickFormat_def Let_def)
next
  case False
  with assms(1) have shape: "pickFormat ext fs t q u =
      \<lparr>format = chooseFormat (filter (\<lambda>fmt. hasVideo fmt \<and> hasAudio fmt) fs) (parseQuality ext q),
       audioFormat = None, videoFormat = None, isMuxed = True\<rparr>"
    by (simp add: pickFormat_def Let_def)
  with assms(2) have ch: "chooseFormat (filter (\<lambda>fmt. hasVideo fmt \<and> hasAudio fmt) fs)
      (parseQuality ext q) = Some fmt"
    by simp
  then have "fmt \<in> set (filter (\<lambda>fmt. hasVideo fmt \<and> hasAudio fmt) fs)"
    by (rule chooseFormat_mem)
  with shape ch show ?thesis by simp
qed

lemma handler_audio_quiet:
  assumes "type req = Some ''audio''"
  shows "\<not> rangeApplied (handler x req w)"
proof (cases "urlValid req")
  case False
  then show ?thesis by (simp add: handler_def jsonError_quiet)
next
  case True
  show ?thesis
  proof (cases "getInfo w")
    case (Inl msg)
    with True show ?thesis
      by (simp add: handler_def Let_def jsonError_quiet mapYtdlError_not_206)
  next
    case (Inr info1)
    with True assms show ?thesis
      by (simp add: handler_def Let_def orDefault_def jsonError_quiet caught_quiet
          audioBranch_quiet untouched_quiet split: option.splits)
  qed
qed


lemma handler_video_unfold:
  assumes "urlValid req" and "getInfo w = Inr info1" and "type req \<noteq> Some ''audio''"
    and "sel = pickFormat (numberOf x) (formats info1) (orDefault (type req) ''video'')
           (orDefault (quality req) ''highest'')
           (orDefault (enableFfmpeg req) ''false'' = ''true'' \<or>
            orDefault (enableFfmpeg req) ''false'' = ''1'')"
  shows "(format sel = None \<longrightarrow> \<not> rangeApplied (handler x req w)) \<and>
         (\<forall>fmt. format sel = Some fmt \<and>
            parseRangeHeader (rangeHeader req) (contentLength fmt) = None \<longrightarrow>
            \<not> rangeApplied (handler x req w))"
proof -
  from assms(3) have t: "orDefault (type req) ''video'' \<noteq> ''audio''"
    by (cases "type req") (simp_all add: orDefault_def)
  have none: "format sel = None \<longrightarrow> \<not> rangeApplied (handler x req w)"
  proof
    assume "format sel = None"
    with assms(1,2,4) t show "\<not> rangeApplied (handler x req w)"
      by (simp add: handler_def Let_def jsonError_quiet caught_quiet mergeBranch_quiet
          split: option.splits)
  qed
  have some: "\<forall>fmt. format sel = Some fmt \<and>
            parseRangeHeader (rangeHeader req) (contentLength fmt) = None \<longrightarrow>
            \<not> rangeApplied (handler x req w)"
  proof (intro allI impI)
    fix fmt
    assume "format sel = Some fmt \<and>
            parseRangeHeader (rangeHeader req) (contentLength fmt) = None"
    with assms(1,2,4) t show "\<not> rangeApplied (handler x req w)"
      by (simp add: handler_def Let_def caught_quiet muxedBranch_quiet)
  qed
  from none some show ?thesis by blast
qed

lemmas handler_eval =
  handler_def sampleExternals_def sampleRequest_def sampleWorld_def variant_def orDefault_def
  pickFormat_def filterFormats_audioonly_def parseQuality_def chooseFormat_def chooseHighest_def
  parseRangeHeader_def matchHere_def bytesLiteral_def isDigit_def digitsNumber_def toDouble_def
  minusOne_def decimal_def digitVal_def endsWith_def caught_def audioBranch_def muxedBranch_def mergeBranch_def
  jsonError_def mimeOf_def Let_def

text \<open>
  C8. A valid request for video, answered by the extraction library with a variant list
  that has no variant with both tracks, and with \<open>enableFfmpeg\<close> neither \<^verbatim>\<open>'true'\<close>
  nor \<^verbatim>\<open>'1'\<close>: \<open>pickFormat\<close> selects nothing, and the handler answers with status 409
  and a JSON error, having opened no upstream stream, spawned no process and written no
  media.
\<close>

theorem handler_no_viable_format:
  assumes "urlValid req" and "getInfo w = Inr info1" and "type req \<noteq> Some ''audio''"
    and "\<forall>fmt\<in>set (formats info1). \<not> (hasVideo fmt \<and> hasAudio fmt)"
    and "enableFfmpeg req \<noteq> Some ''true''" and "enableFfmpeg req \<noteq> Some ''1''"
  shows "pickFormat (numberOf x) (formats info1) (orDefault (type req) ''video'')
           (orDefault (quality req) ''highest'') False =
           \<lparr>format = None, audioFormat = None, videoFormat = None, isMuxed = False\<rparr> \<and>
         handler x req w =
           \<lparr>statusCode = 409, headers = [],
            body = ErrorJson
              ''No muxed format available. Enable ffmpeg to merge video+audio streams.'',
            fetches = [], spawned = None\<rparr>"
proof -
  from assms(3) have t: "orDefault (type req) ''video'' \<noteq> ''audio''"
    by (cases "type req") (simp_all add: orDefault_def)
  from assms(5,6) have u: "\<not> (orDefault (enableFfmpeg req) ''false'' = ''true'' \<or>
      orDefault (enableFfmpeg req) ''false'' = ''1'')"
    by (cases "enableFfmpeg req") (simp_all add: orDefault_def)
  from assms(4) have m: "filter (\<lambda>fmt. hasVideo fmt \<and> hasAudio fmt) (formats info1) = []"
    by (auto simp: filter_empty_conv)
  from t m have sel: "pickFormat (numberOf x) (formats info1) (orDefault (type req) ''video'')
           (orDefault (quality req) ''highest'') False =
           \<lparr>format = None, audioFormat = None, videoFormat = None, isMuxed = False\<rparr>"
    by (simp add: pickFormat_def Let_def)
  from assms(1,2) u sel have "handler x req w =
      jsonError 409 ''No muxed format available. Enable ffmpeg to merge video+audio streams.''"
    by (simp add: handler_def Let_def)
  with sel show ?thesis by (simp add: jsonError_def)
qed


theorem handler_no_viable_format_witness:
  "handler sampleExternals (sampleRequest ''video'' ''false'' None)
     (sampleWorld [variant True False 9 137, variant False True 5 140]) =
     \<lparr>statusCode = 409, headers = [],
      body = ErrorJson
        ''No muxed format available. Enable ffmpeg to merge video+audio streams.'',
      fetches = [], spawned = None\<rparr>"
proof -
  let ?fs = "[variant True False 9 137, variant False True 5 140]"
  have a: "urlValid (sampleRequest ''video'' ''false'' None)"
    by (simp add: sampleRequest_def)
  have b: "getInfo (sampleWorld ?fs) = Inr \<lparr>formats = ?fs, title = ''clip''\<rparr>"
    by (simp add: sampleWorld_def)
  have c: "type (sampleRequest ''video'' ''false'' None) \<noteq> Some ''audio''"
    by (simp add: sampleRequest_def)
  have d: "\<forall>fmt\<in>set (formats \<lparr>formats = ?fs, title = ''clip''\<rparr>). \<not> (hasVideo fmt \<and> hasAudio fmt)"
    by (simp add: variant_def)
  have e: "enableFfmpeg (sampleRequest ''video'' ''false'' None) \<noteq> Some ''true''"
    by (simp add: sampleRequest_def)
  have f: "enableFfmpeg (sampleRequest ''video'' ''false'' None) \<noteq> Some ''1''"
    by (simp add: sampleRequest_def)
  from handler_no_viable_format [OF a b c d e f, of sampleExternals]
  show ?thesis by (rule conjunct2)
qed

text \<open>
  C10. For a request with type \<^verbatim>\<open>'audio'\<close> no window is applied, whatever the
  \<^verbatim>\<open>Range\<close> header: the status is never 206, no Content-Range header is set and every
  upstream fetch is made without a range. A response that applies a window comes from a
  request that is not for audio, for which \<open>pickFormat\<close> chose a single variant with
  both tracks and the header gave a window against the length of that variant.
\<close>

theorem handler_audio_ignores_range:
  "(type req = Some ''audio'' \<longrightarrow> \<not> rangeApplied (handler x req w)) \<and>
   (rangeApplied (handler x req w) \<longrightarrow>
      type req \<noteq> Some ''audio'' \<and>
      (\<exists>info1 fmt.
         getInfo w = Inr info1 \<and>
         pickFormat (numberOf x) (formats info1) (orDefault (type req) ''video'')
           (orDefault (quality req) ''highest'')
           (orDefault (enableFfmpeg req) ''false'' = ''true'' \<or>
            orDefault (enableFfmpeg req) ''false'' = ''1'') =
           \<lparr>format = Some fmt, audioFormat = None, videoFormat = None, isMuxed = True\<rparr> \<and>
         hasVideo fmt \<and> hasAudio fmt \<and>
         parseRangeHeader (rangeHeader req) (contentLength fmt) \<noteq> None))"
proof -
  have audio: "type req = Some ''audio'' \<longrightarrow> \<not> rangeApplied (handler x req w)"
    by (simp add: handler_audio_quiet)
  have only: "rangeApplied (handler x req w) \<longrightarrow>
      type req \<noteq> Some ''audio'' \<and>
      (\<exists>info1 fmt.
         getInfo w = Inr info1 \<and>
         pickFormat (numberOf x) (formats info1) (orDefault (type req) ''video'')
           (orDefault (quality req) ''highest'')
           (orDefault (enableFfmpeg req) ''false'' = ''true'' \<or>
            orDefault (enableFfmpeg req) ''false'' = ''1'') =
           \<lparr>format = Some fmt, audioFormat = None, videoFormat = None, isMuxed = True\<rparr> \<and>
         hasVideo fmt \<and> hasAudio fmt \<and>
         parseRangeHeader (rangeHeader req) (contentLength fmt) \<noteq> None)"
  proof
    assume ra: "rangeApplied (handler x req w)"
    with audio have ty: "type req \<noteq> Some ''audio''" by blast
    then have t: "orDefault (type req) ''video'' \<noteq> ''audio''"
      by (cases "type req") (simp_all add: orDefault_def)
    from ra have valid: "urlValid req"
      by (cases "urlValid req") (simp_all add: handler_def jsonError_quiet)
    from ra valid obtain info1 where gi: "getInfo w = Inr info1"
      by (cases "getInfo w")
        (simp_all add: handler_def Let_def jsonError_quiet mapYtdlError_not_206)
    define sel where "sel = pickFormat (numberOf x) (formats info1) (orDefault (type req) ''video'')
           (orDefault (quality req) ''highest'')
           (orDefault (enableFfmpeg req) ''false'' = ''true'' \<or>
            orDefault (enableFfmpeg req) ''false'' = ''1'')"
    note u = handler_video_unfold [OF valid gi ty sel_def]
    from u ra obtain fmt where f: "format sel = Some fmt"
      by (cases "format sel") auto
    with u ra have rg: "parseRangeHeader (rangeHeader req) (contentLength fmt) \<noteq> None"
      by auto
    from pickFormat_video_format [OF t] f
    have "sel = \<lparr>format = Some fmt, audioFormat = None, videoFormat = None, isMuxed = True\<rparr> \<and>
         fmt \<in> set (formats info1) \<and> hasVideo fmt \<and> hasAudio fmt"
      unfolding sel_def by blast
    with gi rg ty show "type req \<noteq> Some ''audio'' \<and>
      (\<exists>info1 fmt.
         getInfo w = Inr info1 \<and>
         pickFormat (numberOf x) (formats info1) (orDefault (type req) ''video'')
           (orDefault (quality req) ''highest'')
           (orDefault (enableFfmpeg req) ''false'' = ''true'' \<or>
            orDefault (enableFfmpeg req) ''false'' = ''1'') =
           \<lparr>format = Some fmt, audioFormat = None, videoFormat = None, isMuxed = True\<rparr> \<and>
         hasVideo fmt \<and> hasAudio fmt \<and>
         parseRangeHeader (rangeHeader req) (contentLength fmt) \<noteq> None)"
      unfolding sel_def by blast
  qed
  from audio only show ?thesis by (rule conjI)
qed

theorem handler_audio_ignores_range_witness:
  "parseRangeHeader (Some ''bytes=0-499'') (contentLength (variant False True 5 140)) =
     Some \<lparr>range_start = 0, range_end = 499\<rparr> \<and>
   handler sampleExternals (sampleRequest ''audio'' ''false'' (Some ''bytes=0-499''))
     (sampleWorld [variant False True 5 140]) =
     \<lparr>statusCode = 200,
      headers = [ContentDisposition ''inline'' ''clip.mp4'', CacheControl ''no-store'',
                 ContentType ''audio/mp4''],
      body = MediaBytes, fetches = [(variant False True 5 140, None)], spawned = None\<rparr> \<and>
   \<not> rangeApplied (handler sampleExternals (sampleRequest ''audio'' ''false'' (Some ''bytes=0-499''))
     (sampleWorld [variant False True 5 140])) \<and>
   statusCode (handler sampleExternals (sampleRequest ''video'' ''false'' (Some ''bytes=0-499''))
     (sampleWorld [variant True True 2 18])) = 206 \<and>
   type (sampleRequest ''video'' ''false'' (Some ''bytes=0-499'')) \<noteq> Some ''audio''"
proof -
  let ?a = "handler sampleExternals (sampleRequest ''audio'' ''false'' (Some ''bytes=0-499''))
     (sampleWorld [variant False True 5 140])"
  let ?v = "handler sampleExternals (sampleRequest ''video'' ''false'' (Some ''bytes=0-499''))
     (sampleWorld [variant True True 2 18])"
  have p: "parseRangeHeader (Some ''bytes=0-499'') (contentLength (variant False True 5 140)) =
     Some \<lparr>range_start = 0, range_end = 499\<rparr>"
    by (simp add: handler_eval)
  have ty: "type (sampleRequest ''audio'' ''false'' (Some ''bytes=0-499'')) = Some ''audio''"
    by (simp add: sampleRequest_def)
  have ev: "?a = \<lparr>statusCode = 200,
      headers = [ContentDisposition ''inline'' ''clip.mp4'', CacheControl ''no-store'',
                 ContentType ''audio/mp4''],
      body = MediaBytes, fetches = [(variant False True 5 140, None)], spawned = None\<rparr>"
    by (simp add: handler_eval)
  have vs: "statusCode ?v = 206"
    by (simp add: handler_eval)
  then have vr: "rangeApplied ?v"
    by (simp add: rangeApplied_def)
  from handler_audio_ignores_range
    [of "sampleRequest ''audio'' ''false'' (Some ''bytes=0-499'')" sampleExternals
        "sampleWorld [variant False True 5 140]"] ty
  have q: "\<not> rangeApplied ?a" by blast
  from handler_audio_ignores_range
    [of "sampleRequest ''video'' ''false'' (Some ''bytes=0-499'')" sampleExternals
        "sampleWorld [variant True True 2 18]"] vr
  have n: "type (sampleRequest ''video'' ''false'' (Some ''bytes=0-499'')) \<noteq> Some ''audio''"
    by blast
  from p ev q vs n show ?thesis by blast
qed

end
